theory Spec2Isabelle
  imports Main "HOL-Library.AList"
begin

section \<open>JavaScript values\<close>

text \<open>
  The handlers of \<^verbatim>\<open>server.js\<close> read JSON request bodies and compute with JavaScript's
  operators. A number is modelled as an exact integer or \<open>NaN\<close>: fractions, infinities and the
  rounding of doubles are outside the model.
\<close>

datatype jsnum = Num int | NaN

fun num_add :: "jsnum \<Rightarrow> jsnum \<Rightarrow> jsnum" where
  "num_add (Num a) (Num b) = Num (a + b)"
| "num_add _ _ = NaN"

fun num_mul :: "jsnum \<Rightarrow> jsnum \<Rightarrow> jsnum" where
  "num_mul (Num a) (Num b) = Num (a * b)"
| "num_mul _ _ = NaN"

text \<open>
  A value as \<^verbatim>\<open>express.json()\<close> delivers it, and \<open>JUndefined\<close> for a property that is
  absent. An object is the list of its own properties in creation order.
\<close>

datatype jsval =
    JUndefined
  | JNull
  | JBool bool
  | JNum jsnum
  | JStr string
  | JArr "jsval list"
  | JObj "(string \<times> jsval) list"

datatype error = TypeError | CastError

text \<open>Number::toString on an integer: decimal digits, a minus sign when negative.\<close>

fun show_nat :: "nat \<Rightarrow> string" where
  "show_nat n =
     (if n < 10 then [''0123456789'' ! n]
      else show_nat (n div 10) @ [''0123456789'' ! (n mod 10)])"

declare show_nat.simps [simp del]

definition show_int :: "int \<Rightarrow> string" where
  "show_int i = (if i < 0 then CHR ''-'' # show_nat (nat (- i)) else show_nat (nat i))"

fun join_commas :: "string list \<Rightarrow> string" where
  "join_commas [] = []"
| "join_commas [s] = s"
| "join_commas (s # t # ss) = s @ '','' @ join_commas (t # ss)"

text \<open>
  ToString, as the \<^verbatim>\<open>+\<close> of a value and a string applies it: an array joins its elements
  with commas (\<^verbatim>\<open>null\<close> and \<^verbatim>\<open>undefined\<close> elements as the empty string), a plain object
  is \<^verbatim>\<open>[object Object]\<close>.
\<close>

fun to_string :: "jsval \<Rightarrow> string" where
  "to_string JUndefined = ''undefined''"
| "to_string JNull = ''null''"
| "to_string (JBool b) = (if b then ''true'' else ''false'')"
| "to_string (JNum (Num n)) = show_int n"
| "to_string (JNum NaN) = ''NaN''"
| "to_string (JStr s) = s"
| "to_string (JArr xs) =
     join_commas (map (\<lambda>x. if x = JUndefined \<or> x = JNull then [] else to_string x) xs)"
| "to_string (JObj kvs) = ''[object Object]''"

text \<open>
  What the process is configured with and what its libraries compute: the HMAC-SHA256 of
  \<^verbatim>\<open>crypto\<close> as a hex digest (key, then message), the gateway secret of the environment,
  StringToNumber, and the offset of local time from UTC in milliseconds (a zone without
  daylight saving).
\<close>

record runtime =
  hmac_sha256_hex :: "string \<Rightarrow> string \<Rightarrow> string"
  key_secret :: string
  string_to_number :: "string \<Rightarrow> jsnum"
  local_tza :: int

text \<open>ToNumber, as \<^verbatim>\<open>*\<close> applies it to each operand.\<close>

fun to_number :: "runtime \<Rightarrow> jsval \<Rightarrow> jsnum" where
  "to_number rt JUndefined = NaN"
| "to_number rt JNull = Num 0"
| "to_number rt (JBool b) = Num (if b then 1 else 0)"
| "to_number rt (JNum n) = n"
| "to_number rt (JStr s) = string_to_number rt s"
| "to_number rt (JArr xs) = string_to_number rt (to_string (JArr xs))"
| "to_number rt (JObj kvs) = NaN"

text \<open>
  Reading a property \<^verbatim>\<open>v.k\<close>: a TypeError on \<^verbatim>\<open>undefined\<close> and \<^verbatim>\<open>null\<close>, the own
  property of an object, and \<^verbatim>\<open>undefined\<close> otherwise (none of the names the handlers read,
  \<^verbatim>\<open>items\<close>, \<^verbatim>\<open>price\<close>, \<^verbatim>\<open>qty\<close> and \<^verbatim>\<open>name\<close>, is inherited by a JSON value).
\<close>

fun get_prop :: "jsval \<Rightarrow> string \<Rightarrow> error + jsval" where
  "get_prop JUndefined k = Inl TypeError"
| "get_prop JNull k = Inl TypeError"
| "get_prop (JObj kvs) k = Inr (case map_of kvs k of None \<Rightarrow> JUndefined | Some v \<Rightarrow> v)"
| "get_prop _ k = Inr JUndefined"

section \<open>Dates\<close>

text \<open>
  A \<^verbatim>\<open>Date\<close> is its time value, the milliseconds since the epoch in UTC, or it is an
  Invalid Date (\<open>None\<close>). The functions below are those of the ECMAScript specification
  (Day, TimeWithinDay, DaysInYear, DayFromYear, YearFromTime, InLeapYear, MonthFromTime,
  DateFromTime, MakeDay, MakeDate, TimeClip, LocalTime, UTC), on which it defines
  \<^verbatim>\<open>getDate\<close>, \<^verbatim>\<open>getMonth\<close>, \<^verbatim>\<open>setDate\<close> and \<^verbatim>\<open>setMonth\<close>.
\<close>

type_synonym jsdate = "int option"

definition ms_per_day :: int where
  "ms_per_day = 86400000"

definition day :: "int \<Rightarrow> int" where
  "day t = t div ms_per_day"

definition time_within_day :: "int \<Rightarrow> int" where
  "time_within_day t = t mod ms_per_day"

definition days_in_year :: "int \<Rightarrow> int" where
  "days_in_year y =
     (if y mod 4 \<noteq> 0 then 365 else if y mod 100 \<noteq> 0 then 366
      else if y mod 400 \<noteq> 0 then 365 else 366)"

definition day_from_year :: "int \<Rightarrow> int" where
  "day_from_year y =
     365 * (y - 1970) + (y - 1969) div 4 - (y - 1901) div 100 + (y - 1601) div 400"

text \<open>
  A year has \<open>days_in_year\<close> days: the first day of the next year is that much later. The
  search for the year of a day terminates on that account.
\<close>

lemma div_succ:
  fixes a c :: int
  assumes "1 < c"
  shows "(a + 1) div c = a div c + (if c dvd a + 1 then 1 else 0)"
proof -
  have r: "0 \<le> a mod c" "a mod c < c"
    using assms by simp_all
  have e: "(a + 1) div c = a div c + (a mod c + 1) div c"
    using assms by (simp add: div_add1_eq [of a 1 c])
  show ?thesis
  proof (cases "a mod c + 1 = c")
    case True
    then have "(a + 1) mod c = 0"
      by (metis mod_add_left_eq mod_self)
    with e True assms show ?thesis
      by (simp add: mod_eq_0_iff_dvd)
  next
    case False
    with r have lt: "a mod c + 1 < c" by simp
    then have "(a mod c + 1) div c = 0"
      using r by (simp add: div_pos_pos_trivial)
    moreover have "(a + 1) mod c = a mod c + 1"
      using lt r by (metis add_nonneg_nonneg mod_add_left_eq mod_pos_pos_trivial zero_le_one)
    then have "\<not> c dvd a + 1"
      using r by (simp add: dvd_eq_mod_eq_0)
    ultimately show ?thesis using e by simp
  qed
qed

lemma days_in_year_dvd:
  "days_in_year y =
     365 + (if 4 dvd y then 1 else 0) - (if 100 dvd y then 1 else 0)
       + (if 400 dvd y then 1 else 0)"
proof -
  have "400 dvd y \<Longrightarrow> 100 dvd y"
    by (rule dvd_trans [of 100 400 y]) simp_all
  moreover have "100 dvd y \<Longrightarrow> 4 dvd y"
    by (rule dvd_trans [of 4 100 y]) simp_all
  ultimately show ?thesis
    unfolding days_in_year_def mod_eq_0_iff_dvd
    by (cases "4 dvd y"; cases "100 dvd y"; cases "400 dvd y") simp_all
qed

lemma day_from_year_succ: "day_from_year (y + 1) = day_from_year y + days_in_year y"
proof -
  have a: "(y - 1968) div 4 = (y - 1969) div 4 + (if 4 dvd y then 1 else 0)"
    using div_succ [of 4 "y - 1969"] by (simp add: dvd_diff_left_iff)
  have b: "(y - 1900) div 100 = (y - 1901) div 100 + (if 100 dvd y then 1 else 0)"
    using div_succ [of 100 "y - 1901"] by (simp add: dvd_diff_left_iff)
  have c: "(y - 1600) div 400 = (y - 1601) div 400 + (if 400 dvd y then 1 else 0)"
    using div_succ [of 400 "y - 1601"] by (simp add: dvd_diff_left_iff)
  have "day_from_year (y + 1) =
      365 * (y - 1969) + (y - 1968) div 4 - (y - 1900) div 100 + (y - 1600) div 400"
    by (simp add: day_from_year_def)
  also have "\<dots> = day_from_year y + days_in_year y"
    unfolding a b c days_in_year_dvd day_from_year_def by (simp add: algebra_simps)
  finally show ?thesis .
qed

lemma day_from_year_less: "day_from_year y < day_from_year (y + 1)"
  unfolding day_from_year_succ by (simp add: days_in_year_def)

text \<open>
  YearFromTime is the largest year whose first day is not after the given day: the search
  climbs from a year that is not after it.
\<close>

function year_search :: "int \<Rightarrow> int \<Rightarrow> int" where
  "year_search y d = (if day_from_year (y + 1) \<le> d then year_search (y + 1) d else y)"
  by pat_completeness auto
termination
proof (relation "measure (\<lambda>(y, d). nat (d - day_from_year y))")
  show "wf (measure (\<lambda>(y, d). nat (d - day_from_year y)))"
    by simp
next
  fix y d :: int
  assume "day_from_year (y + 1) \<le> d"
  then show "((y + 1, d), (y, d)) \<in> measure (\<lambda>(y, d). nat (d - day_from_year y))"
    using day_from_year_less [of y] by simp
qed

declare year_search.simps [simp del]

definition year_from_day :: "int \<Rightarrow> int" where
  "year_from_day d = year_search (1970 + (if d < 0 then d div 365 else d div 366)) d"

definition year_from_time :: "int \<Rightarrow> int" where
  "year_from_time t = year_from_day (day t)"

definition in_leap_year :: "int \<Rightarrow> int" where
  "in_leap_year y = (if days_in_year y = 366 then 1 else 0)"

definition day_within_year :: "int \<Rightarrow> int" where
  "day_within_year t = day t - day_from_year (year_from_time t)"

text \<open>The day of the year on which month \<open>m\<close> (0 to 11) starts; \<open>l\<close> is 1 in a leap year.\<close>

definition month_start :: "int \<Rightarrow> int \<Rightarrow> int" where
  "month_start m l =
     (if m = 0 then 0 else if m = 1 then 31 else if m = 2 then 59 + l
      else if m = 3 then 90 + l else if m = 4 then 120 + l else if m = 5 then 151 + l
      else if m = 6 then 181 + l else if m = 7 then 212 + l else if m = 8 then 243 + l
      else if m = 9 then 273 + l else if m = 10 then 304 + l else 334 + l)"

definition month_from_time :: "int \<Rightarrow> int" where
  "month_from_time t =
     (let dy = day_within_year t; l = in_leap_year (year_from_time t) in
      if dy < 31 then 0 else if dy < 59 + l then 1 else if dy < 90 + l then 2
      else if dy < 120 + l then 3 else if dy < 151 + l then 4 else if dy < 181 + l then 5
      else if dy < 212 + l then 6 else if dy < 243 + l then 7 else if dy < 273 + l then 8
      else if dy < 304 + l then 9 else if dy < 334 + l then 10 else 11)"

definition date_from_time :: "int \<Rightarrow> int" where
  "date_from_time t =
     day_within_year t
       - month_start (month_from_time t) (in_leap_year (year_from_time t)) + 1"

definition make_day :: "int \<Rightarrow> int \<Rightarrow> int \<Rightarrow> int" where
  "make_day year month date =
     (let ym = year + month div 12; mn = month mod 12 in
      day_from_year ym + month_start mn (in_leap_year ym) + date - 1)"

definition make_date :: "int \<Rightarrow> int \<Rightarrow> int" where
  "make_date dy tm = dy * ms_per_day + tm"

definition time_clip :: "int \<Rightarrow> jsdate" where
  "time_clip t = (if \<bar>t\<bar> > 8640000000000000 then None else Some t)"

definition local_time :: "runtime \<Rightarrow> int \<Rightarrow> int" where
  "local_time rt t = t + local_tza rt"

definition utc :: "runtime \<Rightarrow> int \<Rightarrow> int" where
  "utc rt t = t - local_tza rt"

definition getDate :: "runtime \<Rightarrow> jsdate \<Rightarrow> jsnum" where
  "getDate rt d = (case d of None \<Rightarrow> NaN | Some t \<Rightarrow> Num (date_from_time (local_time rt t)))"


definition setDate :: "runtime \<Rightarrow> jsdate \<Rightarrow> jsnum \<Rightarrow> jsdate" where
  "setDate rt d dt =
     (case (d, dt) of
        (Some t0, Num n) \<Rightarrow>
          (let t = local_time rt t0 in
           time_clip (utc rt (make_date
             (make_day (year_from_time t) (month_from_time t) n) (time_within_day t))))
      | _ \<Rightarrow> None)"







definition utc_date :: "int \<Rightarrow> int \<Rightarrow> int \<Rightarrow> int" where
  "utc_date y m d = make_date (make_day y m d) 0"

section \<open>The document store\<close>

text \<open>
  The two collections of the database, each in its natural (insertion) order. A document
  carries the \<^verbatim>\<open>_id\<close> the store gave it; the store keeps the ids of a collection distinct.
  A String path holds a string or is null or absent (\<open>None\<close>); \<open>items\<close> is the Mixed array
  as it was supplied; \<open>total\<close> is the number the creating handler computed.
\<close>

record order =
  oid :: nat
  orderType :: "string option"
  customerName :: "string option"
  registrationNumber :: "string option"
  mobile :: "string option"
  tableNumber :: "string option"
  address :: "string option"
  items :: "jsval list"
  total :: int
  status :: "string option"
  createdAt :: int
  updatedAt :: int

record manager =
  mid :: nat
  username :: string
  password :: string

record db =
  orders :: "order list"
  managers :: "manager list"

definition wf_db :: "db \<Rightarrow> bool" where
  "wf_db d = (distinct (map oid (orders d)) \<and> distinct (map mid (managers d)))"

text \<open>What a handler leaves behind: a response that was sent, or a rejection nobody caught.\<close>

datatype body =
    Success_body bool "order option"
  | Order_body "order option"
  | Sales_body int nat
  | TopDish_body "(string \<times> int) option"

datatype reply = Sent nat body | Unhandled error

datatype event = NewOrder order | OrderUpdated "order option"

section \<open>Manager credentials\<close>

text \<open>
  \<^verbatim>\<open>POST /api/manager/change-credentials\<close>. The four body fields are strings, as the Manager
  model types them. \<^verbatim>\<open>findOne\<close> gives the first document that matches both fields;
  \<^verbatim>\<open>save\<close> writes the changed document back under its \<^verbatim>\<open>_id\<close>.
\<close>

record credentials_request =
  currentUser :: string
  currentPassword :: string
  newUser :: string
  newPassword :: string

definition Manager_findOne :: "string \<Rightarrow> string \<Rightarrow> manager list \<Rightarrow> manager option" where
  "Manager_findOne u p ms = find (\<lambda>m. username m = u \<and> password m = p) ms"

definition Manager_save :: "manager \<Rightarrow> manager list \<Rightarrow> manager list" where
  "Manager_save m ms = map (\<lambda>x. if mid x = mid m then m else x) ms"

definition change_credentials :: "credentials_request \<Rightarrow> db \<Rightarrow> reply \<times> db" where
  "change_credentials req d =
     (case Manager_findOne (currentUser req) (currentPassword req) (managers d) of
        None \<Rightarrow> (Sent 401 (Success_body False None), d)
      | Some m \<Rightarrow>
          (Sent 200 (Success_body True None),
           d\<lparr>managers :=
               Manager_save (m\<lparr>username := newUser req, password := newPassword req\<rparr>)
                 (managers d)\<rparr>))"

section \<open>Payment verification and order creation\<close>

text \<open>
  \<^verbatim>\<open>POST /api/payments/verify-and-create-order\<close>. The body's four fields are whatever JSON
  the client sent.
\<close>

record verify_request =
  razorpay_order_id :: jsval
  razorpay_payment_id :: jsval
  razorpay_signature :: jsval
  orderPayload :: jsval

definition expected_signature :: "runtime \<Rightarrow> verify_request \<Rightarrow> string" where
  "expected_signature rt req =
     hmac_sha256_hex rt (key_secret rt)
       (to_string (razorpay_order_id req) @ ''|'' @ to_string (razorpay_payment_id req))"

text \<open>
  \<^verbatim>\<open>items.reduce((sum, i) => sum + i.price * i.qty, 0)\<close>. The accumulator \<open>acc\<close> (the
  source's \<^verbatim>\<open>sum\<close>) is a number throughout, so \<^verbatim>\<open>+\<close> adds numbers; reading a property of a
  \<^verbatim>\<open>null\<close> element throws.
\<close>

fun reduce_total :: "runtime \<Rightarrow> jsval list \<Rightarrow> jsnum \<Rightarrow> error + jsnum" where
  "reduce_total rt [] acc = Inr acc"
| "reduce_total rt (i # rest) acc =
     (case get_prop i ''price'' of
        Inl e \<Rightarrow> Inl e
      | Inr p \<Rightarrow>
          (case get_prop i ''qty'' of
             Inl e \<Rightarrow> Inl e
           | Inr q \<Rightarrow>
               reduce_total rt rest (num_add acc (num_mul (to_number rt p) (to_number rt q)))))"

text \<open>\<^verbatim>\<open>orderPayload.items.reduce(...)\<close>: only an array has \<^verbatim>\<open>reduce\<close>.\<close>

definition payload_total :: "runtime \<Rightarrow> jsval \<Rightarrow> error + jsnum" where
  "payload_total rt payload =
     (case get_prop payload ''items'' of
        Inl e \<Rightarrow> Inl e
      | Inr (JArr xs) \<Rightarrow> reduce_total rt xs (Num 0)
      | Inr _ \<Rightarrow> Inl TypeError)"

text \<open>
  The own properties \<^verbatim>\<open>{...v}\<close> copies. The handler spreads the payload only after it read
  an array from its \<^verbatim>\<open>items\<close>, so the payload is an object there.
\<close>

definition spread :: "jsval \<Rightarrow> (string \<times> jsval) list" where
  "spread v = (case v of JObj kvs \<Rightarrow> kvs | _ \<Rightarrow> [])"

definition field :: "(string \<times> jsval) list \<Rightarrow> string \<Rightarrow> jsval" where
  "field doc k = (case map_of doc k of None \<Rightarrow> JUndefined | Some v \<Rightarrow> v)"

text \<open>
  \<^verbatim>\<open>Order.create\<close>. Mongoose casts each path of the schema and drops every other key; a
  failed cast rejects the document. A String path takes a string, a number or a boolean
  (by its \<^verbatim>\<open>toString\<close>), and of an object only its string \<^verbatim>\<open>_id\<close>. The handler always
  passes a number to the Number path \<open>total\<close>, which refuses \<open>NaN\<close>, and an array to the
  Array path \<open>items\<close>, which keeps it as it is. \<open>status\<close> defaults to \<^verbatim>\<open>"new"\<close> when
  absent. The store assigns \<^verbatim>\<open>_id\<close> and the timestamps: a payload is taken to carry the
  fields of the Order data model, not an \<^verbatim>\<open>_id\<close> or timestamps of its own.
\<close>

fun cast_string :: "jsval \<Rightarrow> error + string option" where
  "cast_string JUndefined = Inr None"
| "cast_string JNull = Inr None"
| "cast_string (JStr s) = Inr (Some s)"
| "cast_string (JNum n) = Inr (Some (to_string (JNum n)))"
| "cast_string (JBool b) = Inr (Some (to_string (JBool b)))"
| "cast_string (JArr xs) = Inl CastError"
| "cast_string (JObj kvs) =
     (case map_of kvs ''_id'' of
        Some (JStr s) \<Rightarrow> if s = [] then Inl CastError else Inr (Some s)
      | _ \<Rightarrow> Inl CastError)"

fun cast_number :: "jsval \<Rightarrow> error + int" where
  "cast_number (JNum (Num n)) = Inr n"
| "cast_number _ = Inl CastError"

fun cast_array :: "jsval \<Rightarrow> jsval list" where
  "cast_array (JArr xs) = xs"
| "cast_array JUndefined = []"
| "cast_array v = [v]"

definition and_then :: "error + 'a \<Rightarrow> ('a \<Rightarrow> error + 'b) \<Rightarrow> error + 'b" where
  "and_then m f = (case m of Inl e \<Rightarrow> Inl e | Inr x \<Rightarrow> f x)"

definition fresh_oid :: "order list \<Rightarrow> nat" where
  "fresh_oid os = Suc (foldr max (map oid os) 0)"

definition Order_create ::
  "int \<Rightarrow> (string \<times> jsval) list \<Rightarrow> order list \<Rightarrow> error + order \<times> order list" where
  "Order_create now doc os =
     and_then (cast_string (field doc ''orderType'')) (\<lambda>ot.
     and_then (cast_string (field doc ''customerName'')) (\<lambda>cn.
     and_then (cast_string (field doc ''registrationNumber'')) (\<lambda>rn.
     and_then (cast_string (field doc ''mobile'')) (\<lambda>mb.
     and_then (cast_string (field doc ''tableNumber'')) (\<lambda>tn.
     and_then (cast_string (field doc ''address'')) (\<lambda>ad.
     and_then (cast_number (field doc ''total'')) (\<lambda>tot.
     and_then (if field doc ''status'' = JUndefined then Inr (Some ''new'')
           else cast_string (field doc ''status'')) (\<lambda>st.
       let newOrder = \<lparr>oid = fresh_oid os, orderType = ot, customerName = cn,
             registrationNumber = rn, mobile = mb, tableNumber = tn, address = ad,
             items = cast_array (field doc ''items''), total = tot, status = st,
             createdAt = now, updatedAt = now\<rparr>
       in Inr (newOrder, os @ [newOrder])))))))))"

text \<open>
  The handler; \<open>now\<close> is the clock at the time of the call. Everything thrown inside the
  \<^verbatim>\<open>try\<close> ends in the \<^verbatim>\<open>catch\<close>: status 500, \<^verbatim>\<open>{success: false}\<close>.
\<close>

definition verify_and_create_order ::
  "runtime \<Rightarrow> int \<Rightarrow> verify_request \<Rightarrow> db \<Rightarrow> reply \<times> event list \<times> db" where
  "verify_and_create_order rt now req d =
     (if JStr (expected_signature rt req) \<noteq> razorpay_signature req
      then (Sent 200 (Success_body False None), [], d)
      else
        (case payload_total rt (orderPayload req) of
           Inl e \<Rightarrow> (Sent 500 (Success_body False None), [], d)
         | Inr tot \<Rightarrow>
             (case Order_create now
                     (AList.update ''total'' (JNum tot) (spread (orderPayload req)))
                     (orders d) of
                Inl e \<Rightarrow> (Sent 500 (Success_body False None), [], d)
              | Inr (newOrder, os) \<Rightarrow>
                  (Sent 200 (Success_body True (Some newOrder)), [NewOrder newOrder],
                   d\<lparr>orders := os\<rparr>))))"

text \<open>
  The words of the specification, to compare the handler with. \<open>property\<close> reads a property
  where reading cannot throw (\<^verbatim>\<open>undefined\<close> where it would); \<open>line_total\<close> is
  \<^verbatim>\<open>price * qty\<close> of one item; \<open>spec_total\<close> is the sum of \<^verbatim>\<open>price * qty\<close> over the items.
  \<open>string_paths\<close> are the String paths of the Order schema, and a value is \<open>castable\<close> when
  the String cast takes it.
\<close>

definition property :: "jsval \<Rightarrow> string \<Rightarrow> jsval" where
  "property v k = (case get_prop v k of Inl e \<Rightarrow> JUndefined | Inr x \<Rightarrow> x)"

definition line_total :: "runtime \<Rightarrow> jsval \<Rightarrow> jsnum" where
  "line_total rt i = num_mul (to_number rt (property i ''price'')) (to_number rt (property i ''qty''))"

definition spec_total :: "runtime \<Rightarrow> jsval list \<Rightarrow> jsnum" where
  "spec_total rt xs = foldr num_add (map (line_total rt) xs) (Num 0)"

definition string_paths :: "string list" where
  "string_paths = [''orderType'', ''customerName'', ''registrationNumber'', ''mobile'',
     ''tableNumber'', ''address'', ''status'']"

definition castable :: "jsval \<Rightarrow> bool" where
  "castable v = (case cast_string v of Inl e \<Rightarrow> False | Inr s \<Rightarrow> True)"


section \<open>Order status\<close>





section \<open>Dashboard\<close>



text \<open>
  \<^verbatim>\<open>GET /api/dashboard/topdish\<close>. The tally \<^verbatim>\<open>dishCount\<close> is an object: its own properties in
  creation order. \<^verbatim>\<open>Object.entries\<close> lists the keys that are array indices first, in
  ascending numeric order, and the other keys after them in creation order. \<^verbatim>\<open>sort\<close> is
  stable.
\<close>

definition digits_value :: "string \<Rightarrow> int" where
  "digits_value s = foldl (\<lambda>n c. 10 * n + (of_char c - 48)) 0 s"

definition is_array_index :: "string \<Rightarrow> bool" where
  "is_array_index s =
     (s \<noteq> [] \<and> list_all (\<lambda>c. c \<in> set ''0123456789'') s
      \<and> (s = ''0'' \<or> hd s \<noteq> CHR ''0'') \<and> digits_value s \<le> 4294967294)"


fun insert_by :: "('a \<Rightarrow> 'a \<Rightarrow> int) \<Rightarrow> 'a \<Rightarrow> 'a list \<Rightarrow> 'a list" where
  "insert_by cmp x [] = [x]"
| "insert_by cmp x (y # ys) = (if cmp x y \<le> 0 then x # y # ys else y # insert_by cmp x ys)"

definition js_sort :: "('a \<Rightarrow> 'a \<Rightarrow> int) \<Rightarrow> 'a list \<Rightarrow> 'a list" where
  "js_sort cmp xs = foldr (insert_by cmp) xs []"





definition day_window :: "runtime \<Rightarrow> jsdate \<Rightarrow> jsdate \<times> jsdate" where
  "day_window rt date =
     (let start = date; end = date in (start, setDate rt end (num_add (getDate rt end) (Num 1))))"




definition first_seen :: "string list \<Rightarrow> string list" where
  "first_seen names = rev (remdups (rev names))"

definition key_order :: "string list \<Rightarrow> string list" where
  "key_order names =
     sort_key digits_value (filter is_array_index (first_seen names))
       @ filter (\<lambda>n. \<not> is_array_index n) (first_seen names)"


section \<open>Example data\<close>

text \<open>
  A runtime for the examples: UTC, and stand-ins for the two library functions (the digest
  of a message is the key, a colon and the message; no string denotes a number). The
  signature of \<open>example_request\<close> is the digest of its ids under that runtime. \<open>march_5\<close> is
  2024-03-05T00:00:00Z.
\<close>

definition example_runtime :: runtime where
  "example_runtime =
     \<lparr>hmac_sha256_hex = (\<lambda>k m. k @ '':'' @ m), key_secret = ''secret'',
      string_to_number = (\<lambda>s. NaN), local_tza = 0\<rparr>"

definition example_managers :: "manager list" where
  "example_managers =
     [\<lparr>mid = 1, username = ''admin'', password = ''pizza''\<rparr>,
      \<lparr>mid = 2, username = ''chef'', password = ''dough''\<rparr>]"

definition example_request :: "jsval \<Rightarrow> verify_request" where
  "example_request payload =
     \<lparr>razorpay_order_id = JStr ''order_1'', razorpay_payment_id = JStr ''pay_1'',
      razorpay_signature = JStr ''secret:order_1|pay_1'', orderPayload = payload\<rparr>"

definition empty_db :: db where
  "empty_db = \<lparr>orders = [], managers = []\<rparr>"

definition example_order :: "nat \<Rightarrow> jsval list \<Rightarrow> int \<Rightarrow> int \<Rightarrow> order" where
  "example_order i xs tot tm =
     \<lparr>oid = i, orderType = None, customerName = None, registrationNumber = None,
      mobile = None, tableNumber = None, address = None, items = xs, total = tot,
      status = Some ''new'', createdAt = tm, updatedAt = tm\<rparr>"

definition pizza_items :: "jsval list" where
  "pizza_items =
     [JObj [(''name'', JStr ''Margherita''), (''price'', JNum (Num 250)), (''qty'', JNum (Num 2))],
      JObj [(''name'', JStr ''Pepperoni''), (''price'', JNum (Num 300)), (''qty'', JNum (Num 1))]]"

definition pizza_payload :: "(string \<times> jsval) list" where
  "pizza_payload = [(''total'', JNum (Num 1)), (''items'', JArr pizza_items)]"

definition null_price_items :: "jsval list" where
  "null_price_items =
     [JObj [(''name'', JStr ''Margherita''), (''price'', JNull), (''qty'', JNum (Num 2))]]"

definition no_price_items :: "jsval list" where
  "no_price_items = [JObj [(''name'', JStr ''Margherita''), (''qty'', JNum (Num 2))]]"


definition march_5 :: int where
  "march_5 = 1709596800000"



section \<open>Properties of the credential change\<close>

lemma Manager_save_list_update:
  assumes "distinct (map mid ms)" and "i < length ms" and "mid m = mid (ms ! i)"
  shows "Manager_save m ms = ms[i := m]"
proof (rule nth_equalityI)
  show "length (Manager_save m ms) = length (ms[i := m])"
    by (simp add: Manager_save_def)
next
  fix j
  assume "j < length (Manager_save m ms)"
  then have j: "j < length ms"
    by (simp add: Manager_save_def)
  have "mid (ms ! j) = mid (ms ! i) \<longleftrightarrow> j = i"
    using assms(1,2) j by (metis length_map nth_eq_iff_index_eq nth_map)
  then show "Manager_save m ms ! j = ms[i := m] ! j"
    using j assms(2,3) by (auto simp: Manager_save_def)
qed

text \<open>
  Claim C10. In a store whose ids are distinct, \<open>change_credentials\<close> leaves every Order as
  it was. When no Manager has the current credentials it answers 401 and the store is the one
  it was given. When one has, the Manager collection afterwards is the collection before
  with the one document \<^verbatim>\<open>findOne\<close> matched, at its position, replaced by itself with the new
  username and password: its \<^verbatim>\<open>_id\<close> and every other Manager are unchanged.
\<close>

theorem change_credentials_frame:
  assumes "wf_db d"
  shows "orders (snd (change_credentials req d)) = orders d
    \<and> (Manager_findOne (currentUser req) (currentPassword req) (managers d) = None \<longrightarrow>
         change_credentials req d = (Sent 401 (Success_body False None), d))
    \<and> (\<forall>m. Manager_findOne (currentUser req) (currentPassword req) (managers d) = Some m \<longrightarrow>
         (\<exists>i < length (managers d). managers d ! i = m
            \<and> username m = currentUser req \<and> password m = currentPassword req
            \<and> change_credentials req d =
                (Sent 200 (Success_body True None),
                 d\<lparr>managers := (managers d)
                     [i := m\<lparr>username := newUser req, password := newPassword req\<rparr>]\<rparr>)))"
proof (cases "Manager_findOne (currentUser req) (currentPassword req) (managers d)")
  case None
  then show ?thesis by (simp add: change_credentials_def)
next
  case (Some m)
  then obtain i where i: "i < length (managers d)" "managers d ! i = m"
    and m: "username m = currentUser req" "password m = currentPassword req"
    by (auto simp: Manager_findOne_def find_Some_iff)
  have "distinct (map mid (managers d))"
    using assms by (simp add: wf_db_def)
  then have "Manager_save (m\<lparr>username := newUser req, password := newPassword req\<rparr>) (managers d)
      = (managers d)[i := m\<lparr>username := newUser req, password := newPassword req\<rparr>]"
    using i by (intro Manager_save_list_update) simp_all
  with Some i m show ?thesis
    by (auto simp: change_credentials_def)
qed

theorem change_credentials_frame_witness:
  "wf_db \<lparr>orders = [], managers = example_managers\<rparr>
   \<and> Manager_findOne ''chef'' ''dough'' example_managers
       = Some \<lparr>mid = 2, username = ''chef'', password = ''dough''\<rparr>
   \<and> change_credentials
        \<lparr>currentUser = ''chef'', currentPassword = ''dough'', newUser = ''cook'',
         newPassword = ''flour''\<rparr>
        \<lparr>orders = [], managers = example_managers\<rparr>
      = (Sent 200 (Success_body True None),
         \<lparr>orders = [], managers =
            [\<lparr>mid = 1, username = ''admin'', password = ''pizza''\<rparr>,
             \<lparr>mid = 2, username = ''cook'', password = ''flour''\<rparr>]\<rparr>)"
proof -
  let ?d = "\<lparr>orders = [], managers = example_managers\<rparr>"
  let ?req = "\<lparr>currentUser = ''chef'', currentPassword = ''dough'', newUser = ''cook'',
         newPassword = ''flour''\<rparr>"
  have wf: "wf_db ?d"
    by (simp add: wf_db_def example_managers_def)
  have found: "Manager_findOne ''chef'' ''dough'' example_managers
       = Some \<lparr>mid = 2, username = ''chef'', password = ''dough''\<rparr>"
    by (simp add: Manager_findOne_def example_managers_def)
  from change_credentials_frame [OF wf, of ?req] found
  obtain i where "i < length example_managers"
    and "example_managers ! i = \<lparr>mid = 2, username = ''chef'', password = ''dough''\<rparr>"
    and r: "change_credentials ?req ?d =
      (Sent 200 (Success_body True None),
       ?d\<lparr>managers := example_managers
          [i := \<lparr>mid = 2, username = ''cook'', password = ''flour''\<rparr>]\<rparr>)"
    by auto
  then have "i = 1"
    by (cases i) (auto simp: example_managers_def)
  with r wf found show ?thesis
    by (simp add: example_managers_def)
qed

section \<open>Properties of payment verification\<close>

lemma num_add_assoc: "num_add (num_add a b) c = num_add a (num_add b c)"
  by (cases a; cases b; cases c) simp_all

lemma num_add_NaN_right [simp]: "num_add a NaN = NaN"
  by (cases a) simp_all

lemma num_add_zero [simp]: "num_add a (Num 0) = a" "num_add (Num 0) a = a"
  by (cases a; simp)+

lemma reduce_total_step:
  "reduce_total rt (i # rest) acc =
     (if i = JNull \<or> i = JUndefined then Inl TypeError
      else reduce_total rt rest (num_add acc (line_total rt i)))"
  by (cases i) (simp_all add: line_total_def property_def)

lemma reduce_total_Inr:
  "reduce_total rt xs acc = Inr t \<Longrightarrow>
     t = num_add acc (spec_total rt xs) \<and> JNull \<notin> set xs \<and> JUndefined \<notin> set xs"
proof (induction xs arbitrary: acc)
  case Nil
  then show ?case by (simp add: spec_total_def)
next
  case (Cons i rest)
  from Cons.prems have i: "i \<noteq> JNull" "i \<noteq> JUndefined"
    and r: "reduce_total rt rest (num_add acc (line_total rt i)) = Inr t"
    unfolding reduce_total_step by (auto split: if_splits)
  from Cons.IH [OF r] i show ?case
    by (auto simp: spec_total_def num_add_assoc)
qed

lemma reduce_total_Inl:
  "reduce_total rt xs acc = Inl e \<Longrightarrow> (JNull \<in> set xs \<or> JUndefined \<in> set xs) \<and> e = TypeError"
proof (induction xs arbitrary: acc)
  case Nil
  then show ?case by simp
next
  case (Cons i rest)
  then show ?case
    unfolding reduce_total_step by (auto split: if_splits)
qed

lemma reduce_total_total:
  "JNull \<notin> set xs \<Longrightarrow> JUndefined \<notin> set xs \<Longrightarrow>
     reduce_total rt xs acc = Inr (num_add acc (spec_total rt xs))"
  using reduce_total_Inl [of rt xs acc] reduce_total_Inr [of rt xs acc]
  by (cases "reduce_total rt xs acc") auto

lemma Order_create_Inr:
  assumes "Order_create now doc os = Inr (x, os')"
  shows "os' = os @ [x] \<and> oid x = fresh_oid os \<and> field doc ''total'' = JNum (Num (total x))
     \<and> items x = cast_array (field doc ''items'') \<and> createdAt x = now
     \<and> list_all (\<lambda>k. castable (field doc k)) string_paths"
  using assms
  unfolding Order_create_def and_then_def castable_def string_paths_def Let_def
  by (auto split: sum.splits if_splits elim!: cast_number.elims)



lemma num_add_Num_iff: "num_add a b = Num n \<longleftrightarrow> (\<exists>x y. a = Num x \<and> b = Num y \<and> n = x + y)"
  by (cases a; cases b) auto

lemma spec_total_Cons: "spec_total rt (i # xs) = num_add (line_total rt i) (spec_total rt xs)"
  by (simp add: spec_total_def)

lemma line_total_null [simp]: "line_total rt JNull = NaN" "line_total rt JUndefined = NaN"
  by (simp_all add: line_total_def property_def)

lemma spec_total_NaN_iff: "spec_total rt xs = NaN \<longleftrightarrow> (\<exists>i \<in> set xs. line_total rt i = NaN)"
proof (induction xs)
  case Nil
  show ?case by (simp add: spec_total_def)
next
  case (Cons i xs)
  then show ?case
    by (cases "line_total rt i"; cases "spec_total rt xs") (auto simp: spec_total_Cons)
qed

lemma spec_total_Num_no_null:
  assumes "spec_total rt xs = Num n"
  shows "JNull \<notin> set xs \<and> JUndefined \<notin> set xs"
proof -
  have "\<not> (\<exists>i \<in> set xs. line_total rt i = NaN)"
    using assms spec_total_NaN_iff [of rt xs] by simp
  then show ?thesis
    by (metis line_total_null)
qed

lemma payload_total_Inr:
  assumes "payload_total rt p = Inr t"
  shows "\<exists>kvs xs. p = JObj kvs \<and> map_of kvs ''items'' = Some (JArr xs) \<and> t = spec_total rt xs"
proof -
  from assms obtain xs where g: "get_prop p ''items'' = Inr (JArr xs)"
    and r: "reduce_total rt xs (Num 0) = Inr t"
    by (auto simp: payload_total_def split: sum.splits jsval.splits)
  from g obtain kvs where "p = JObj kvs" "map_of kvs ''items'' = Some (JArr xs)"
    by (cases p) (auto split: option.splits)
  with reduce_total_Inr [OF r] show ?thesis by simp
qed

lemma payload_total_Inl:
  assumes "payload_total rt p = Inl e"
  shows "(\<forall>xs. get_prop p ''items'' \<noteq> Inr (JArr xs))
     \<or> (\<exists>xs. get_prop p ''items'' = Inr (JArr xs) \<and> (JNull \<in> set xs \<or> JUndefined \<in> set xs))"
  using assms reduce_total_Inl
  by (auto simp: payload_total_def split: sum.splits jsval.splits)


lemma payload_total_not_array:
  assumes "\<forall>xs. get_prop p ''items'' \<noteq> Inr (JArr xs)"
  shows "payload_total rt p = Inl TypeError"
  using assms by (cases p) (auto simp: payload_total_def split: sum.splits jsval.splits option.splits)

lemma field_update_other: "k \<noteq> k' \<Longrightarrow> field (AList.update k' v doc) k = field doc k"
  by (simp add: field_def update_conv')

lemma field_update_same: "field (AList.update k v doc) k = v"
  by (simp add: field_def update_conv')

lemma verify_success_cases:
  assumes m: "razorpay_signature req = JStr (expected_signature rt req)"
  shows "verify_and_create_order rt now req d = (Sent 500 (Success_body False None), [], d)
    \<or> (\<exists>kvs xs x. orderPayload req = JObj kvs \<and> map_of kvs ''items'' = Some (JArr xs)
          \<and> spec_total rt xs = Num (total x) \<and> oid x = fresh_oid (orders d)
          \<and> items x = xs \<and> createdAt x = now
          \<and> list_all (\<lambda>k. castable (field kvs k)) string_paths
          \<and> verify_and_create_order rt now req d =
               (Sent 200 (Success_body True (Some x)), [NewOrder x],
                d\<lparr>orders := orders d @ [x]\<rparr>))"
proof (cases "payload_total rt (orderPayload req)")
  case (Inl e)
  with m show ?thesis by (simp add: verify_and_create_order_def)
next
  case (Inr tot)
  from payload_total_Inr [OF Inr] obtain kvs xs where p: "orderPayload req = JObj kvs"
    and i: "map_of kvs ''items'' = Some (JArr xs)" and t: "tot = spec_total rt xs"
    by blast
  let ?doc = "AList.update ''total'' (JNum tot) kvs"
  show ?thesis
  proof (cases "Order_create now ?doc (orders d)")
    case (Inl e)
    with m Inr p show ?thesis by (simp add: verify_and_create_order_def spread_def)
  next
    case c: (Inr r)
    obtain x os where r: "r = (x, os)" by (cases r)
    from Order_create_Inr [OF c [unfolded r]]
    have os: "os = orders d @ [x]" and "oid x = fresh_oid (orders d)"
      and "JNum tot = JNum (Num (total x))" and "items x = xs" and "createdAt x = now"
      and "list_all (\<lambda>k. castable (field kvs k)) string_paths"
      using i by (simp_all add: field_update_same field_update_other string_paths_def)
        (simp add: field_def)
    moreover have "verify_and_create_order rt now req d =
        (Sent 200 (Success_body True (Some x)), [NewOrder x], d\<lparr>orders := os\<rparr>)"
      using m Inr p c r by (simp add: verify_and_create_order_def spread_def)
    ultimately show ?thesis using p i t by auto
  qed
qed



lemmas example_defs =
  example_runtime_def example_request_def empty_db_def example_order_def pizza_items_def
  pizza_payload_def

lemmas verify_defs =
  verify_and_create_order_def expected_signature_def payload_total_def spread_def
  Order_create_def and_then_def field_def fresh_oid_def Let_def

lemma example_request_matches:
  "razorpay_signature (example_request p) = JStr (expected_signature example_runtime (example_request p))"
  by (simp add: example_request_def expected_signature_def example_runtime_def)






text \<open>
  Claim C3, amended. For a request whose signature matches, when \<^verbatim>\<open>orderPayload.items\<close> is
  missing or is not an array, or is an array with a \<^verbatim>\<open>null\<close> element or with an element
  whose \<^verbatim>\<open>price * qty\<close> is not a number (a price or quantity that is absent, say), the
  handler answers the generic 500, emits nothing and leaves the store as it was. (A price or
  quantity that JavaScript coerces to a number, such as \<^verbatim>\<open>null\<close>, is not refused: see the
  counterexample.)
\<close>

theorem verify_bad_items_server_error:
  assumes "razorpay_signature req = JStr (expected_signature rt req)"
    and "(\<forall>xs. get_prop (orderPayload req) ''items'' \<noteq> Inr (JArr xs))
       \<or> (\<exists>xs. get_prop (orderPayload req) ''items'' = Inr (JArr xs)
            \<and> (JNull \<in> set xs \<or> (\<exists>i \<in> set xs. line_total rt i = NaN)))"
  shows "verify_and_create_order rt now req d = (Sent 500 (Success_body False None), [], d)"
proof -
  from verify_success_cases [OF assms(1), of now d]
  show ?thesis
  proof
    assume "\<exists>kvs xs x. orderPayload req = JObj kvs \<and> map_of kvs ''items'' = Some (JArr xs)
          \<and> spec_total rt xs = Num (total x) \<and> oid x = fresh_oid (orders d)
          \<and> items x = xs \<and> createdAt x = now
          \<and> list_all (\<lambda>k. castable (field kvs k)) string_paths
          \<and> verify_and_create_order rt now req d =
               (Sent 200 (Success_body True (Some x)), [NewOrder x],
                d\<lparr>orders := orders d @ [x]\<rparr>)"
    then obtain kvs xs and x :: order where p: "orderPayload req = JObj kvs"
      and i: "map_of kvs ''items'' = Some (JArr xs)" and t: "spec_total rt xs = Num (total x)"
      by blast
    from p i have g: "get_prop (orderPayload req) ''items'' = Inr (JArr xs)"
      by simp
    from t have "\<not> (\<exists>i \<in> set xs. line_total rt i = NaN)" "JNull \<notin> set xs"
      using spec_total_NaN_iff [of rt xs] spec_total_Num_no_null [OF t] by simp_all
    with assms(2) g show ?thesis by auto
  qed
qed

theorem verify_bad_items_server_error_witness:
  "verify_and_create_order example_runtime 1000
      (example_request (JObj [(''items'', JStr ''2 pizzas'')])) empty_db
     = (Sent 500 (Success_body False None), [], empty_db)
   \<and> verify_and_create_order example_runtime 1000
      (example_request (JObj [(''items'', JArr no_price_items)])) empty_db
     = (Sent 500 (Success_body False None), [], empty_db)"
proof -
  let ?r1 = "example_request (JObj [(''items'', JStr ''2 pizzas'')])"
  let ?r2 = "example_request (JObj [(''items'', JArr no_price_items)])"
  have m: "razorpay_signature ?r1 = JStr (expected_signature example_runtime ?r1)"
      "razorpay_signature ?r2 = JStr (expected_signature example_runtime ?r2)"
    by (simp_all add: example_defs expected_signature_def)
  have h1: "\<forall>xs. get_prop (orderPayload ?r1) ''items'' \<noteq> Inr (JArr xs)"
    by (simp add: example_request_def)
  have h2: "get_prop (orderPayload ?r2) ''items'' = Inr (JArr no_price_items)
      \<and> (JNull \<in> set no_price_items
          \<or> (\<exists>i \<in> set no_price_items. line_total example_runtime i = NaN))"
    by (simp add: example_request_def no_price_items_def line_total_def property_def)
  from verify_bad_items_server_error [OF m(1), of 1000 empty_db] h1
    verify_bad_items_server_error [OF m(2), of 1000 empty_db] h2
  show ?thesis by blast
qed

text \<open>
  The signature matches and the one item has the price \<^verbatim>\<open>null\<close>: the order is persisted,
  with total 0, and the answer is \<^verbatim>\<open>{success: true, order}\<close>.
\<close>

theorem verify_bad_items_counterexample:
  "razorpay_signature (example_request (JObj [(''items'', JArr null_price_items)]))
     = JStr (expected_signature example_runtime
         (example_request (JObj [(''items'', JArr null_price_items)])))
   \<and> verify_and_create_order example_runtime 1000
        (example_request (JObj [(''items'', JArr null_price_items)])) empty_db
      = (Sent 200 (Success_body True (Some (example_order 1 null_price_items 0 1000))),
         [NewOrder (example_order 1 null_price_items 0 1000)],
         \<lparr>orders = [example_order 1 null_price_items 0 1000], managers = []\<rparr>)"
  by (simp add: example_defs verify_defs null_price_items_def)



section \<open>Properties of dates\<close>








lemma day_window_Invalid: "day_window rt None = (None, None)"
  by (simp add: day_window_def Let_def setDate_def)



section \<open>Properties of the status update\<close>




section \<open>Properties of the dashboard\<close>



lemma march_5_utc_date: "march_5 = utc_date 2024 2 5"
  by code_simp





lemma set_first_seen [simp]: "set (first_seen xs) = set xs"
  by (simp add: first_seen_def)








lemma map_insort_key:
  "map f (insort_key (\<lambda>e. g (f e)) x xs) = insort_key g (f x) (map f xs)"
  by (induction xs) simp_all

lemma map_sort_key: "map f (sort_key (\<lambda>e. g (f e)) xs) = sort_key g (map f xs)"
  by (induction xs) (simp_all add: map_insort_key)



lemma insert_by_not_Nil [simp]: "insert_by cmp x ys \<noteq> []"
  by (cases ys) simp_all



lemma js_sort_Nil_iff [simp]: "js_sort cmp xs = [] \<longleftrightarrow> xs = []"
  by (cases xs) (simp_all add: js_sort_def)


lemma key_order_set [simp]: "set (key_order names) = set names"
  by (auto simp: key_order_def)







section \<open>Properties of the calendar\<close>






















section \<open>Properties of the sales window\<close>





end
